theory Spec2Isabelle
  imports Complex_Main "HOL-Library.Sublist"
begin

section \<open>Strings as the handlers use them\<close>

text \<open>
  A JavaScript string is modelled as a \<open>string\<close> (a list of 8-bit characters). The
  character classes and literals of \<open>videos.js\<close> are all ASCII; a character outside
  ASCII is opaque to every test below.
\<close>

definition upper_chars :: string where
  "upper_chars = ''ABCDEFGHIJKLMNOPQRSTUVWXYZ''"

definition lower_chars :: string where
  "lower_chars = ''abcdefghijklmnopqrstuvwxyz''"

definition digit_chars :: string where
  "digit_chars = ''0123456789''"

text \<open>\<open>String.prototype.toLowerCase\<close>, on the ASCII letters.\<close>

definition lower_char :: "char \<Rightarrow> char" where
  "lower_char c = (case map_of (zip upper_chars lower_chars) c of Some d \<Rightarrow> d | None \<Rightarrow> c)"

definition toLowerCase :: "string \<Rightarrow> string" where
  "toLowerCase s = map lower_char s"

text \<open>\<open>s.replace(pat, rep)\<close> with a string pattern: the first occurrence only.\<close>

fun replace_first :: "string \<Rightarrow> string \<Rightarrow> string \<Rightarrow> string" where
  "replace_first pat rep [] = (if pat = [] then rep else [])"
| "replace_first pat rep (c # cs) =
     (if prefix pat (c # cs) then rep @ drop (length pat) (c # cs)
      else c # replace_first pat rep cs)"

text \<open>\<open>s.includes(pat)\<close>: \<open>pat\<close> occurs in \<open>s\<close> as a contiguous substring.\<close>

fun includes_str :: "string \<Rightarrow> string \<Rightarrow> bool" where
  "includes_str [] pat = (pat = [])"
| "includes_str (c # cs) pat = (prefix pat (c # cs) \<or> includes_str cs pat)"

text \<open>\<open>s.split('@')[0]\<close>: the part of \<open>s\<close> before its first \<open>@\<close>.\<close>

definition before_at :: "string \<Rightarrow> string" where
  "before_at s = takeWhile (\<lambda>c. c \<noteq> CHR ''@'') s"

text \<open>The decimal rendering of a non-negative integer in a template literal.\<close>

fun show_nat :: "nat \<Rightarrow> string" where
  "show_nat n =
     (if n < 10 then [digit_chars ! n]
      else show_nat (n div 10) @ [digit_chars ! (n mod 10)])"

declare show_nat.simps [simp del]

text \<open>
  \<open>path.extname\<close> of Node (POSIX flavour): trailing slashes are ignored, the last path
  component is taken, and the extension runs from its last dot to its end. The result
  is empty when the component has no dot, when its only dot is its first character, and
  when the component is \<open>..\<close>.
\<close>

definition last_component :: "string \<Rightarrow> string" where
  "last_component p =
     rev (takeWhile (\<lambda>c. c \<noteq> CHR ''/'') (dropWhile (\<lambda>c. c = CHR ''/'') (rev p)))"

definition extname :: "string \<Rightarrow> string" where
  "extname p =
     (let b = last_component p;
          e = rev (takeWhile (\<lambda>c. c \<noteq> CHR ''.'') (rev b));
          pre = take (length b - length e - 1) b
      in if CHR ''.'' \<notin> set b then []
         else if pre = [] then []
         else if b = ''..'' then []
         else CHR ''.'' # e)"

section \<open>The multer disk storage: generated file names\<close>

text \<open>The character class \<open>[a-zA-Z0-9.-]\<close> of \<open>storage.filename\<close>.\<close>

definition name_char :: "char \<Rightarrow> bool" where
  "name_char c = (c \<in> set (lower_chars @ upper_chars @ digit_chars @ ''.-''))"

text \<open>\<open>.replace(/[^a-zA-Z0-9.-]/g, '_')\<close>: every character outside the class becomes \<open>_\<close>.\<close>

definition replace_unsafe :: "string \<Rightarrow> string" where
  "replace_unsafe s = map (\<lambda>c. if name_char c then c else CHR ''_'') s"

text \<open>
  \<open>.replace(/_{2,}/g, '_')\<close>: scanning from the left, a maximal run of two or more
  underscores is replaced by one underscore; any other character is copied.
\<close>

function replace_runs :: "string \<Rightarrow> string" where
  "replace_runs [] = []"
| "replace_runs (c # cs) =
     (if c = CHR ''_'' \<and> (case cs of [] \<Rightarrow> False | d # _ \<Rightarrow> d = CHR ''_'')
      then CHR ''_'' # replace_runs (dropWhile (\<lambda>x. x = CHR ''_'') cs)
      else c # replace_runs cs)"
  by pat_completeness auto
termination
  by (relation "measure length") (auto simp: length_dropWhile_le less_Suc_eq_le)

text \<open>
  \<open>storage.filename\<close>: \<open>now\<close> is the value of \<open>Date.now()\<close>, \<open>originalname\<close> the
  name the client sent.
\<close>

definition sanitizedName :: "string \<Rightarrow> string" where
  "sanitizedName originalname = replace_runs (replace_unsafe originalname)"

definition storage_filename :: "nat \<Rightarrow> string \<Rightarrow> string" where
  "storage_filename now originalname = show_nat now @ ''_'' @ sanitizedName originalname"



section \<open>Requests, stored rows and the world the handlers act on\<close>

record user =
  user_id :: nat
  user_email :: "string option"
  user_usuario :: "string option"
  user_bitrate :: "int option"
  user_espectadores :: "int option"

text \<open>\<open>req.file\<close> as multer's disk storage leaves it.\<close>

record upload_file =
  file_originalname :: string
  file_filename :: string
  file_path :: string
  file_size :: nat
  file_mimetype :: string

text \<open>
  \<open>req.query.folder_id\<close> is \<open>None\<close> when the parameter is absent or empty (both are
  falsy), and a numeric identifier otherwise.
\<close>

record upload_request =
  req_user :: user
  req_file :: "upload_file option"
  req_folder_id :: "nat option"

text \<open>The value of \<open>req.query.folder_id || 'default'\<close>.\<close>

datatype folder_ref = FolderId nat | FolderDefault

text \<open>
  The number a \<open>folder_ref\<close> stands for where a statement compares it with the
  numeric column \<open>codigo\<close> or stores it in \<open>pasta\<close>: MySQL compares a number with a
  string as numbers, and a string that is no numeral, such as \<open>'default'\<close>, counts
  as 0.
\<close>

fun sql_key :: "folder_ref \<Rightarrow> nat" where
  "sql_key (FolderId n) = n"
| "sql_key FolderDefault = 0"

text \<open>A row of \<open>streamings\<close>; \<open>codigo_servidor = 0\<close> stands for a falsy server id.\<close>

record streaming_row =
  codigo :: nat
  codigo_cliente :: nat
  codigo_servidor :: nat
  identificacao :: string
  espaco :: int
  espaco_usado :: int

record video_row =
  v_id :: nat
  v_nome :: string
  v_url :: "string option"
  v_caminho :: "string option"
  v_duracao :: int
  v_tamanho_arquivo :: nat
  v_codigo_cliente :: nat
  v_pasta :: nat
  v_bitrate_video :: "int option"
  v_formato_original :: string
  v_codec_video :: "string option"
  v_largura :: int
  v_altura :: int
  v_is_mp4 :: int
  v_compativel :: string

text \<open>The side effects a handler performs, in the order it performs them.\<close>

datatype effect =
    LocalUnlink string
  | SshStructure nat string
  | SshFolder nat string string
  | SshUpload nat string string
  | SshDelete nat string
  | DbInsertVideo nat
  | DbAddUsed nat int
  | DbReleaseUsed nat int
  | DbDeleteVideo nat
  | SmilUpdate nat

record world =
  local_files :: "string set"
  remote_files :: "(nat \<times> string) set"
  streamings :: "streaming_row list"
  videos :: "video_row list"
  next_id :: nat
  log :: "effect list"

datatype js_error =
    ReferenceError string
  | TypeError
  | FsError
  | SshError
  | DbError
  | SmilError

record 'b response =
  status :: nat
  body :: 'b

section \<open>The media probe\<close>

text \<open>
  The outcome of the spawned \<open>ffprobe\<close> process: an \<open>error\<close> event, or a \<open>close\<close>
  event with the exit code and the collected standard output, which is empty, or text
  that \<open>JSON.parse\<close> rejects, or text that parses to a document. The parsed document
  is typed as the probe contract describes it; numeric strings are given by what
  \<open>parseFloat\<close> and \<open>parseInt\<close> return on them (\<open>None\<close> for NaN).
\<close>

record ff_format =
  fmt_duration :: "rat option"
  fmt_bit_rate :: "int option"
  fmt_format_name :: "string option"

record ff_stream =
  st_codec_type :: string
  st_codec_name :: "string option"
  st_width :: "int option"
  st_height :: "int option"
  st_bit_rate :: "int option"

datatype ff_json = JNull | JDoc "ff_format option" "ff_stream list option"

datatype ff_stdout = NoOutput | Unparseable | Parsed ff_json

datatype proc_result = ProcError | ProcClose int ff_stdout

datatype probe_error = SpawnFailed | ProbeFailed | ParseFailed

definition getVideoInfo :: "proc_result \<Rightarrow> probe_error + ff_json" where
  "getVideoInfo p =
     (case p of
        ProcError \<Rightarrow> Inl SpawnFailed
      | ProcClose code stdout \<Rightarrow>
          if code = 0 \<and> stdout \<noteq> NoOutput then
            (case stdout of Parsed info \<Rightarrow> Inr info | _ \<Rightarrow> Inl ParseFailed)
          else Inl ProbeFailed)"

text \<open>\<open>x || d\<close> on a string that may be missing, and on a number that may be missing.\<close>

definition str_or :: "string option \<Rightarrow> string \<Rightarrow> string" where
  "str_or x d = (case x of None \<Rightarrow> d | Some s \<Rightarrow> if s = [] then d else s)"

definition int_or :: "int option \<Rightarrow> int \<Rightarrow> int" where
  "int_or x d = (case x of None \<Rightarrow> d | Some n \<Rightarrow> if n = 0 then d else n)"

text \<open>\<open>Math.floor(parseInt(b) / 1000) || 0\<close>.\<close>

definition to_kbps :: "int option \<Rightarrow> int" where
  "to_kbps b = (case b of None \<Rightarrow> 0 | Some n \<Rightarrow> n div 1000)"

record media =
  m_duracao :: int
  m_bitrateVideo :: int
  m_codecVideo :: string
  m_largura :: int
  m_altura :: int
  m_formatoOriginal :: string

definition default_media :: "string \<Rightarrow> media" where
  "default_media fileExtension =
     \<lparr>m_duracao = 0, m_bitrateVideo = 0, m_codecVideo = ''unknown'',
      m_largura = 0, m_altura = 0, m_formatoOriginal = drop 1 fileExtension\<rparr>"

definition read_format :: "string \<Rightarrow> ff_format option \<Rightarrow> media \<Rightarrow> media" where
  "read_format fileExtension fmt m =
     (case fmt of
        None \<Rightarrow> m
      | Some f \<Rightarrow>
          m\<lparr>m_duracao := \<lfloor>case fmt_duration f of None \<Rightarrow> 0 | Some d \<Rightarrow> d\<rfloor>,
            m_bitrateVideo := to_kbps (fmt_bit_rate f),
            m_formatoOriginal := str_or (fmt_format_name f) (drop 1 fileExtension)\<rparr>)"

definition read_streams :: "ff_stream list option \<Rightarrow> media \<Rightarrow> media" where
  "read_streams streams m =
     (case streams of
        None \<Rightarrow> m
      | Some ss \<Rightarrow>
          (case find (\<lambda>s. st_codec_type s = ''video'') ss of
             None \<Rightarrow> m
           | Some videoStream \<Rightarrow>
               m\<lparr>m_codecVideo := str_or (st_codec_name videoStream) ''unknown'',
                 m_largura := int_or (st_width videoStream) 0,
                 m_altura := int_or (st_height videoStream) 0,
                 m_bitrateVideo :=
                   (if m_bitrateVideo m = 0 then to_kbps (st_bit_rate videoStream)
                    else m_bitrateVideo m)\<rparr>))"

text \<open>
  The probe block of the upload handler (lines 277 to 321): a rejected
  \<open>getVideoInfo\<close>, and a parsed \<open>null\<close>, leave every default in place.
\<close>

definition probe_media :: "proc_result \<Rightarrow> string \<Rightarrow> media" where
  "probe_media p fileExtension =
     (case getVideoInfo p of
        Inl probeError \<Rightarrow> default_media fileExtension
      | Inr JNull \<Rightarrow> default_media fileExtension
      | Inr (JDoc fmt streams) \<Rightarrow>
          read_streams streams (read_format fileExtension fmt (default_media fileExtension)))"

section \<open>Compatibility\<close>

definition isCompatibleCodec :: "string option \<Rightarrow> bool" where
  "isCompatibleCodec codecName =
     (case codecName of
        None \<Rightarrow> False
      | Some c \<Rightarrow> toLowerCase c \<in> set [''h264'', ''h265'', ''hevc''])"

definition isCompatibleFormat :: "string \<Rightarrow> string \<Rightarrow> bool" where
  "isCompatibleFormat formatName extension =
     (replace_first ''.'' [] (toLowerCase extension) \<in> set [''mp4''])"

definition videoExtensions :: "string list" where
  "videoExtensions =
     [''.mp4'', ''.avi'', ''.mov'', ''.wmv'', ''.flv'', ''.webm'', ''.mkv'',
      ''.3gp'', ''.3g2'', ''.ts'', ''.mpg'', ''.mpeg'', ''.ogv'', ''.m4v'', ''.asf'']"

section \<open>The collaborators of the handlers\<close>

text \<open>
  A step of a handler either throws or returns a value, and leaves a new world.
  \<open>try_bind\<close> sequences two steps inside one \<open>try\<close> block: the second runs only when
  the first did not throw.
\<close>

type_synonym 'a step = "world \<Rightarrow> (js_error + 'a) \<times> world"

definition try_bind :: "'a step \<Rightarrow> ('a \<Rightarrow> 'b step) \<Rightarrow> 'b step" where
  "try_bind m k w = (case m w of (Inl e, w') \<Rightarrow> (Inl e, w') | (Inr x, w') \<Rightarrow> k x w')"

definition emit :: "effect \<Rightarrow> world \<Rightarrow> world" where
  "emit e w = w\<lparr>log := log w @ [e]\<rparr>"

text \<open>\<open>fs.unlink\<close>: removes an existing local file, rejects on a missing one.\<close>

definition fs_unlink :: "string \<Rightarrow> unit step" where
  "fs_unlink p w =
     (if p \<in> local_files w
      then (Inr (), emit (LocalUnlink p) (w\<lparr>local_files := local_files w - {p}\<rparr>))
      else (Inl FsError, w))"

text \<open>\<open>fs.unlink(p).catch(() => { })\<close>.\<close>

definition fs_unlink_quiet :: "string \<Rightarrow> world \<Rightarrow> world" where
  "fs_unlink_quiet p w = snd (fs_unlink p w)"

text \<open>
  What the collaborators answer during one upload request: the \<open>ffprobe\<close> process,
  and for each call to the database, to \<open>SSHManager\<close> and to
  \<open>PlaylistSMILService\<close> whether it succeeds. The handler makes each of these calls
  at most once.
\<close>

record upload_env =
  u_ffprobe :: proc_result
  u_select_ok :: bool
  u_structure_ok :: bool
  u_folder_ok :: bool
  u_transfer_ok :: bool
  u_insert_ok :: bool
  u_update_ok :: bool
  u_smil_ok :: bool

text \<open>
  \<open>SSHManager\<close> and \<open>PlaylistSMILService\<close> are required by \<open>videos.js\<close> but are not
  among the sources. Each of their calls is modelled below by what the specification
  says of the remote placement client and of the manifest refresher; a call that fails
  throws and changes nothing.
\<close>

text \<open>
  Modelled from the spec: \<open>SSHManager.createCompleteUserStructure\<close> is missing. It
  ensures that the directory structure of the account exists on the server.
\<close>

definition createCompleteUserStructure :: "bool \<Rightarrow> nat \<Rightarrow> string \<Rightarrow> unit step" where
  "createCompleteUserStructure ok serverId userLogin w =
     (if ok then (Inr (), emit (SshStructure serverId userLogin) w) else (Inl SshError, w))"

text \<open>
  Modelled from the spec: \<open>SSHManager.createUserFolder\<close> is missing. It ensures that
  the directory of the destination exists on the server.
\<close>

definition createUserFolder :: "bool \<Rightarrow> nat \<Rightarrow> string \<Rightarrow> string \<Rightarrow> unit step" where
  "createUserFolder ok serverId userLogin folderName w =
     (if ok then (Inr (), emit (SshFolder serverId userLogin folderName) w)
      else (Inl SshError, w))"

text \<open>
  Modelled from the spec: \<open>SSHManager.uploadFile\<close> is missing. It transfers a local
  file, which has to exist, to a remote path.
\<close>

definition uploadFile :: "bool \<Rightarrow> nat \<Rightarrow> string \<Rightarrow> string \<Rightarrow> unit step" where
  "uploadFile ok serverId localPath remotePath w =
     (if ok \<and> localPath \<in> local_files w
      then (Inr (), emit (SshUpload serverId localPath remotePath)
                      (w\<lparr>remote_files := insert (serverId, remotePath) (remote_files w)\<rparr>))
      else (Inl SshError, w))"

text \<open>
  Modelled from the spec: \<open>SSHManager.deleteFile\<close> is missing. It deletes a remote
  path.
\<close>

definition deleteFile :: "bool \<Rightarrow> nat \<Rightarrow> string \<Rightarrow> unit step" where
  "deleteFile ok serverId remotePath w =
     (if ok
      then (Inr (), emit (SshDelete serverId remotePath)
                      (w\<lparr>remote_files := remote_files w - {(serverId, remotePath)}\<rparr>))
      else (Inl SshError, w))"

text \<open>
  Modelled from the spec: \<open>PlaylistSMILService.updateUserSMIL\<close> is missing. It
  regenerates the playback manifest of an account.
\<close>

definition updateUserSMIL :: "bool \<Rightarrow> nat \<Rightarrow> unit step" where
  "updateUserSMIL ok userId w =
     (if ok then (Inr (), emit (SmilUpdate userId) w) else (Inl SmilError, w))"

text \<open>The \<open>try\<close>/\<open>catch\<close> around the manifest refresh: its failure is only logged.\<close>

definition refresh_smil :: "bool \<Rightarrow> nat \<Rightarrow> unit step" where
  "refresh_smil ok userId w = (Inr (), snd (updateUserSMIL ok userId w))"

text \<open>
  The statements sent to the database. \<open>SELECT ... FROM streamings WHERE codigo = ? AND
  (codigo_cliente = ? OR codigo = ?)\<close> with \<open>[folderId, userId, userId]\<close>:
\<close>

definition select_destination :: "bool \<Rightarrow> folder_ref \<Rightarrow> nat \<Rightarrow> world \<Rightarrow> js_error + streaming_row list" where
  "select_destination ok folderId userId w =
     (if ok
      then Inr (filter (\<lambda>s. codigo s = sql_key folderId \<and>
                              (codigo_cliente s = userId \<or> codigo s = userId))
                       (streamings w))
      else Inl DbError)"

text \<open>\<open>INSERT INTO videos ...\<close>: the database assigns the next identifier.\<close>

definition insert_video :: "bool \<Rightarrow> video_row \<Rightarrow> nat step" where
  "insert_video ok row w =
     (if ok
      then (Inr (next_id w),
            emit (DbInsertVideo (next_id w))
              (w\<lparr>videos := videos w @ [row\<lparr>v_id := next_id w\<rparr>],
                 next_id := Suc (next_id w)\<rparr>))
      else (Inl DbError, w))"

text \<open>\<open>UPDATE streamings SET espaco_usado = espaco_usado + ? WHERE codigo = ?\<close>.\<close>

definition add_used :: "bool \<Rightarrow> int \<Rightarrow> folder_ref \<Rightarrow> unit step" where
  "add_used ok spaceMB folderId w =
     (if ok
      then (Inr (),
            emit (DbAddUsed (sql_key folderId) spaceMB)
              (w\<lparr>streamings :=
                   map (\<lambda>s. if codigo s = sql_key folderId
                            then s\<lparr>espaco_usado := espaco_usado s + spaceMB\<rparr> else s)
                       (streamings w)\<rparr>))
      else (Inl DbError, w))"

section \<open>The create pipeline: \<open>router.post('/upload')\<close>\<close>

record space_info =
  sp_required :: int
  sp_available :: int
  sp_total :: int
  sp_used :: int

datatype status_message = VideoCompativel | NecessarioConversao | BitrateAlto

record created =
  c_id :: nat
  c_nome :: string
  c_url :: string
  c_path :: string
  c_originalFile :: string
  c_bitrate_video :: int
  c_codec_video :: string
  c_formato_original :: string
  c_largura :: int
  c_altura :: int
  c_is_mp4 :: bool
  c_needs_conversion :: bool
  c_compatibility_status :: status_message
  c_compatibility_color :: string
  c_duracao :: int
  c_tamanho :: nat
  c_space_used_mb :: int

text \<open>
  The answers of the upload handler. The rounded \<open>percentage\<close> of the quota breakdown
  is a floating-point value and is left out of \<open>space_info\<close>.
\<close>

datatype upload_body =
    NoFile
  | UnsupportedFormat string
  | FolderNotFound
  | InsufficientSpace space_info
  | Created created
  | UploadFailed js_error

text \<open>\<open>Math.ceil(tamanho / (1024 * 1024))\<close>.\<close>

definition ceil_mb :: "nat \<Rightarrow> int" where
  "ceil_mb tamanho = \<lceil>real tamanho / (1024 * 1024)\<rceil>"

text \<open>
  \<open>userBitrateLimit\<close> is declared only inside the list handler (line 162). In the
  scope of the upload handler the identifier is unbound, so evaluating it at line 447
  throws a ReferenceError.
\<close>

definition upload_scope_userBitrateLimit :: "js_error + int" where
  "upload_scope_userBitrateLimit = Inl (ReferenceError ''userBitrateLimit'')"

text \<open>Lines 440 to 450: the status message and colour of the response.\<close>

definition response_status :: "bool \<Rightarrow> int \<Rightarrow> (status_message \<times> string) step" where
  "response_status needsConversion bitrateVideo w =
     (if needsConversion then (Inr (NecessarioConversao, ''red''), w)
      else (case upload_scope_userBitrateLimit of
              Inl e \<Rightarrow> (Inl e, w)
            | Inr userBitrateLimit \<Rightarrow>
                if bitrateVideo > userBitrateLimit then (Inr (BitrateAlto, ''yellow''), w)
                else (Inr (VideoCompativel, ''green''), w)))"

text \<open>Lines 363 to 470: the inner \<open>try\<close> block, from the remote structure to the response.\<close>

definition upload_try ::
  "upload_env \<Rightarrow> nat \<Rightarrow> string \<Rightarrow> folder_ref \<Rightarrow> upload_file \<Rightarrow> string \<Rightarrow> media \<Rightarrow>
   nat \<Rightarrow> string \<Rightarrow> int \<Rightarrow> created step" where
  "upload_try env userId userLogin folderId f fileExtension m serverId folderName spaceMB =
     try_bind (createCompleteUserStructure (u_structure_ok env) serverId userLogin) (\<lambda>_.
     try_bind (createUserFolder (u_folder_ok env) serverId userLogin folderName) (\<lambda>_.
     let remotePath = ''/home/streaming/'' @ userLogin @ ''/'' @ folderName @ ''/'' @ file_filename f in
     try_bind (uploadFile (u_transfer_ok env) serverId (file_path f) remotePath) (\<lambda>_.
     try_bind (fs_unlink (file_path f)) (\<lambda>_.
     let relativePath = userLogin @ ''/'' @ folderName @ ''/'' @ file_filename f;
         videoTitle = file_originalname f;
         isMP4 = (fileExtension = ''.mp4'');
         codecCompatible = isCompatibleCodec (Some (m_codecVideo m));
         formatCompatible = isCompatibleFormat (m_formatoOriginal m) fileExtension;
         needsConversion = (\<not> isMP4 \<or> \<not> codecCompatible);
         compatibilityStatus = (if needsConversion then ''nao'' else ''sim'')
     in
     try_bind (insert_video (u_insert_ok env)
                 \<lparr>v_id = 0, v_nome = videoTitle, v_url = Some relativePath,
                  v_caminho = Some remotePath, v_duracao = m_duracao m,
                  v_tamanho_arquivo = file_size f, v_codigo_cliente = userId,
                  v_pasta = sql_key folderId, v_bitrate_video = Some (m_bitrateVideo m),
                  v_formato_original = m_formatoOriginal m,
                  v_codec_video = Some (m_codecVideo m),
                  v_largura = m_largura m, v_altura = m_altura m,
                  v_is_mp4 = (if isMP4 then 1 else 0),
                  v_compativel = compatibilityStatus\<rparr>) (\<lambda>insertId.
     try_bind (add_used (u_update_ok env) spaceMB folderId) (\<lambda>_.
     try_bind (refresh_smil (u_smil_ok env) userId) (\<lambda>_.
     try_bind (response_status needsConversion (m_bitrateVideo m)) (\<lambda>(statusMessage, statusColor).
     (\<lambda>w. (Inr \<lparr>c_id = insertId, c_nome = videoTitle, c_url = relativePath,
                 c_path = remotePath, c_originalFile = remotePath,
                 c_bitrate_video = m_bitrateVideo m, c_codec_video = m_codecVideo m,
                 c_formato_original = drop 1 fileExtension,
                 c_largura = m_largura m, c_altura = m_altura m,
                 c_is_mp4 = (fileExtension = ''.mp4''),
                 c_needs_conversion = needsConversion,
                 c_compatibility_status = statusMessage,
                 c_compatibility_color = statusColor,
                 c_duracao = m_duracao m, c_tamanho = file_size f,
                 c_space_used_mb = spaceMB\<rparr>, w))))))))))"

text \<open>Lines 476 to 482: the outer \<open>catch\<close>.\<close>

definition catch_outer :: "upload_file \<Rightarrow> js_error \<Rightarrow> world \<Rightarrow> upload_body response \<times> world" where
  "catch_outer f err w =
     (\<lparr>status = 500, body = UploadFailed err\<rparr>,
      if file_path f \<noteq> [] then fs_unlink_quiet (file_path f) w else w)"

definition upload_handler :: "upload_env \<Rightarrow> upload_request \<Rightarrow> world \<Rightarrow> upload_body response \<times> world" where
  "upload_handler env req w =
     (case req_file req of
        None \<Rightarrow> (\<lparr>status = 400, body = NoFile\<rparr>, w)
      | Some f \<Rightarrow>
          (case user_email (req_user req) of
             None \<Rightarrow> catch_outer f TypeError w
           | Some email \<Rightarrow>
               let userId = user_id (req_user req);
                   userLogin = before_at email;
                   folderId = (case req_folder_id req of
                                 None \<Rightarrow> FolderDefault | Some n \<Rightarrow> FolderId n);
                   fileExtension = toLowerCase (extname (file_originalname f))
               in
               if fileExtension \<notin> set videoExtensions
               then (\<lparr>status = 400, body = UnsupportedFormat fileExtension\<rparr>,
                     fs_unlink_quiet (file_path f) w)
               else
                 let m = probe_media (u_ffprobe env) fileExtension;
                     tamanho = file_size f
                 in
                 (case select_destination (u_select_ok env) folderId userId w of
                    Inl err \<Rightarrow> catch_outer f err w
                  | Inr [] \<Rightarrow> (\<lparr>status = 404, body = FolderNotFound\<rparr>, w)
                  | Inr (userData # _) \<Rightarrow>
                      let serverId = (if codigo_servidor userData = 0 then 1
                                      else codigo_servidor userData);
                          folderName = identificacao userData;
                          spaceMB = ceil_mb tamanho;
                          availableSpace = espaco userData - espaco_usado userData
                      in
                      if spaceMB > availableSpace
                      then (\<lparr>status = 400,
                             body = InsufficientSpace
                               \<lparr>sp_required = spaceMB, sp_available = availableSpace,
                                sp_total = espaco userData,
                                sp_used = espaco_usado userData\<rparr>\<rparr>,
                            fs_unlink_quiet (file_path f) w)
                      else
                        (case upload_try env userId userLogin folderId f fileExtension m
                                serverId folderName spaceMB w of
                           (Inl uploadError, w') \<Rightarrow>
                             catch_outer f uploadError (fs_unlink_quiet (file_path f) w')
                         | (Inr c, w') \<Rightarrow> (\<lparr>status = 201, body = Created c\<rparr>, w')))))"

text \<open>
  The \<open>req.file\<close> that multer's disk storage builds from an incoming file: it is
  stored in \<open>/tmp/video-uploads\<close> under the name \<open>storage.filename\<close> generates.
\<close>

definition multer_file :: "nat \<Rightarrow> string \<Rightarrow> nat \<Rightarrow> string \<Rightarrow> upload_file" where
  "multer_file now originalname sz mimetype =
     \<lparr>file_originalname = originalname,
      file_filename = storage_filename now originalname,
      file_path = ''/tmp/video-uploads/'' @ storage_filename now originalname,
      file_size = sz,
      file_mimetype = mimetype\<rparr>"

section \<open>The list path: \<open>router.get('/')\<close>\<close>

record list_request =
  lreq_user :: user
  lreq_folder_id :: "nat option"

record list_env =
  l_select_folder_ok :: bool
  l_select_videos_ok :: bool

record list_item =
  li_video :: video_row
  li_url :: string
  li_folder :: string
  li_user :: string
  li_user_bitrate_limit :: int
  li_bitrate_exceeds_limit :: bool
  li_needs_conversion :: bool
  li_compatibility_status :: string
  li_compatibility_message :: status_message
  li_codec_compatible :: bool
  li_format_compatible :: bool

datatype list_body =
    FolderIdRequired
  | ListFolderNotFound
  | Videos "list_item list"
  | ListFailed js_error

text \<open>Truthiness of a string that may be \<open>null\<close>.\<close>

definition truthy :: "string option \<Rightarrow> bool" where
  "truthy x = (case x of None \<Rightarrow> False | Some s \<Rightarrow> s \<noteq> [])"

text \<open>Lines 165 to 186: the URL of a listed video.\<close>

definition list_url :: "string \<Rightarrow> string \<Rightarrow> video_row \<Rightarrow> string" where
  "list_url userLogin folderName video =
     (let url0 = (if truthy (v_url video) then v_url video else v_caminho video);
          url1 = (if \<not> truthy url0 \<and> truthy (v_caminho video) then v_caminho video else url0);
          url2 = (if \<not> truthy url1 then userLogin @ ''/'' @ folderName @ ''/'' @ v_nome video
                  else the url1);
          url3 = (if includes_str url2 ''/usr/local/WowzaStreamingEngine/content/''
                  then replace_first ''/usr/local/WowzaStreamingEngine/content/'' [] url2
                  else url2)
      in if prefix ''/'' url3 then drop 1 url3 else url3)"

text \<open>Lines 190 to 238: one element of the answer, computed from a stored row.\<close>

definition list_entry :: "string \<Rightarrow> string \<Rightarrow> int \<Rightarrow> video_row \<Rightarrow> list_item" where
  "list_entry userLogin folderName userBitrateLimit video =
     (let currentBitrate = int_or (v_bitrate_video video) 0;
          bitrateExceedsLimit = (currentBitrate > userBitrateLimit);
          fileExtension = toLowerCase (extname (v_nome video));
          isMP4 = (v_is_mp4 video = 1);
          codecCompatible = isCompatibleCodec (v_codec_video video);
          formatCompatible = isCompatibleFormat (v_formato_original video) fileExtension;
          needsConversion = (\<not> isMP4 \<or> \<not> codecCompatible \<or> \<not> formatCompatible)
      in \<lparr>li_video = video,
          li_url = list_url userLogin folderName video,
          li_folder = folderName,
          li_user = userLogin,
          li_user_bitrate_limit = userBitrateLimit,
          li_bitrate_exceeds_limit = bitrateExceedsLimit,
          li_needs_conversion = needsConversion,
          li_compatibility_status =
            (if needsConversion then ''needs_conversion''
             else if bitrateExceedsLimit then ''bitrate_high'' else ''compatible''),
          li_compatibility_message =
            (if needsConversion then NecessarioConversao
             else if bitrateExceedsLimit then BitrateAlto else VideoCompativel),
          li_codec_compatible = codecCompatible,
          li_format_compatible = formatCompatible\<rparr>)"

definition list_handler :: "list_env \<Rightarrow> list_request \<Rightarrow> world \<Rightarrow> list_body response" where
  "list_handler env req w =
     (let userId = user_id (lreq_user req) in
      case lreq_folder_id req of
        None \<Rightarrow> \<lparr>status = 400, body = FolderIdRequired\<rparr>
      | Some folderId \<Rightarrow>
          if \<not> l_select_folder_ok env then \<lparr>status = 500, body = ListFailed DbError\<rparr>
          else
            (case filter (\<lambda>s. codigo s = folderId \<and> codigo_cliente s = userId) (streamings w) of
               [] \<Rightarrow> \<lparr>status = 404, body = ListFolderNotFound\<rparr>
             | folderRow # _ \<Rightarrow>
                 (case user_email (lreq_user req) of
                    None \<Rightarrow> \<lparr>status = 500, body = ListFailed TypeError\<rparr>
                  | Some email \<Rightarrow>
                      if \<not> l_select_videos_ok env
                      then \<lparr>status = 500, body = ListFailed DbError\<rparr>
                      else
                        let folderName = identificacao folderRow;
                            userLogin = before_at email;
                            rows = rev (sort_key v_id
                                     (filter (\<lambda>v. v_codigo_cliente v = userId \<and> v_pasta v = folderId)
                                        (videos w)));
                            userBitrateLimit = int_or (user_bitrate (lreq_user req)) 2500
                        in \<lparr>status = 200,
                            body = Videos (map (list_entry userLogin folderName userBitrateLimit) rows)\<rparr>)))"

section \<open>The removal pipeline: \<open>router.delete('/:id')\<close>\<close>


record file_info =
  fi_exists :: bool
  fi_size :: nat

text \<open>
  What the collaborators answer during one removal; \<open>d_file_info = None\<close> is a
  \<open>getFileInfo\<close> that throws.
\<close>

record delete_env =
  d_select_video_ok :: bool
  d_select_server_ok :: bool
  d_file_info :: "file_info option"
  d_delete_file_ok :: bool
  d_smil_ok :: bool
  d_delete_row_ok :: bool
  d_update_ok :: bool


text \<open>\<open>DELETE FROM videos WHERE id = ?\<close>.\<close>

definition delete_video :: "bool \<Rightarrow> nat \<Rightarrow> unit step" where
  "delete_video ok videoId w =
     (if ok
      then (Inr (), emit (DbDeleteVideo videoId)
                      (w\<lparr>videos := filter (\<lambda>v. v_id v \<noteq> videoId) (videos w)\<rparr>))
      else (Inl DbError, w))"

text \<open>\<open>UPDATE streamings SET espaco_usado = GREATEST(espaco_usado - ?, 0) WHERE codigo = ?\<close>.\<close>

definition release_used :: "bool \<Rightarrow> int \<Rightarrow> nat \<Rightarrow> unit step" where
  "release_used ok spaceMB pasta w =
     (if ok
      then (Inr (),
            emit (DbReleaseUsed pasta spaceMB)
              (w\<lparr>streamings :=
                   map (\<lambda>s. if codigo s = pasta
                            then s\<lparr>espaco_usado := max (espaco_usado s - spaceMB) 0\<rparr> else s)
                       (streamings w)\<rparr>))
      else (Inl DbError, w))"

text \<open>Lines 586 to 601: the remote delete and the manifest refresh, both tolerated.\<close>

definition remove_remote :: "delete_env \<Rightarrow> nat \<Rightarrow> nat \<Rightarrow> string \<Rightarrow> world \<Rightarrow> world" where
  "remove_remote env userId serverId remotePath w =
     (case deleteFile (d_delete_file_ok env) serverId remotePath w of
        (Inl err, w') \<Rightarrow> w'
      | (Inr _, w') \<Rightarrow> snd (refresh_smil (d_smil_ok env) userId w'))"


section \<open>Properties of worlds and of effect logs\<close>





fun is_remote_or_db :: "effect \<Rightarrow> bool" where
  "is_remote_or_db (LocalUnlink _) = False"
| "is_remote_or_db _ = True"


section \<open>Concrete runs\<close>

definition scn_user :: user where
  "scn_user =
     \<lparr>user_id = 7, user_email = Some ''ana@example.com'', user_usuario = None,
      user_bitrate = Some 2500, user_espectadores = None\<rparr>"

definition scn_file :: "string \<Rightarrow> nat \<Rightarrow> upload_file" where
  "scn_file name sz = multer_file 1700000000000 name sz ''video/mp4''"

definition scn_req :: "string \<Rightarrow> nat \<Rightarrow> nat option \<Rightarrow> upload_request" where
  "scn_req name sz folder =
     \<lparr>req_user = scn_user, req_file = Some (scn_file name sz), req_folder_id = folder\<rparr>"

text \<open>
  One destination, number 5 of account 7, with capacity 1000 MB of which \<open>used\<close> are
  taken; the uploaded file waits in the temporary directory.
\<close>

definition scn_world :: "string \<Rightarrow> int \<Rightarrow> world" where
  "scn_world name used =
     \<lparr>local_files = {file_path (scn_file name 0)},
      remote_files = {},
      streamings = [\<lparr>codigo = 5, codigo_cliente = 7, codigo_servidor = 2,
                     identificacao = ''aulas'', espaco = 1000, espaco_usado = used\<rparr>],
      videos = [],
      next_id = 1,
      log = []\<rparr>"

text \<open>An \<open>ffprobe\<close> run that reports one audio and one video stream.\<close>

definition scn_probe :: "string \<Rightarrow> int \<Rightarrow> proc_result" where
  "scn_probe codec bit_rate =
     ProcClose 0 (Parsed (JDoc
       (Some \<lparr>fmt_duration = Some 60, fmt_bit_rate = Some bit_rate,
              fmt_format_name = Some ''mov,mp4,m4a,3gp,3g2,mj2''\<rparr>)
       (Some [\<lparr>st_codec_type = ''audio'', st_codec_name = Some ''aac'', st_width = None,
               st_height = None, st_bit_rate = Some 128000\<rparr>,
              \<lparr>st_codec_type = ''video'', st_codec_name = Some codec, st_width = Some 1280,
               st_height = Some 720, st_bit_rate = None\<rparr>])))"

text \<open>A run in which every collaborator answers.\<close>

definition scn_env :: "proc_result \<Rightarrow> upload_env" where
  "scn_env p =
     \<lparr>u_ffprobe = p, u_select_ok = True, u_structure_ok = True, u_folder_ok = True,
      u_transfer_ok = True, u_insert_ok = True, u_update_ok = True, u_smil_ok = True\<rparr>"

text \<open>Listing destination 5 as account 7, and the elements of an answer.\<close>

definition scn_list_env :: list_env where
  "scn_list_env = \<lparr>l_select_folder_ok = True, l_select_videos_ok = True\<rparr>"

definition scn_list_req :: list_request where
  "scn_list_req = \<lparr>lreq_user = scn_user, lreq_folder_id = Some 5\<rparr>"

definition listed :: "list_body response \<Rightarrow> list_item list" where
  "listed r = (case body r of Videos items \<Rightarrow> items | _ \<Rightarrow> [])"



text \<open>The success body of an answer of the upload handler, when it has one.\<close>

definition created_of :: "upload_body response \<Rightarrow> created option" where
  "created_of r = (case body r of Created c \<Rightarrow> Some c | _ \<Rightarrow> None)"

section \<open>Unfolding rules\<close>

lemmas string_defs =
  toLowerCase_def lower_char_def upper_chars_def lower_chars_def digit_chars_def
  extname_def last_component_def before_at_def

lemmas step_defs =
  try_bind_def emit_def fs_unlink_def fs_unlink_quiet_def
  createCompleteUserStructure_def createUserFolder_def uploadFile_def deleteFile_def
  updateUserSMIL_def refresh_smil_def insert_video_def add_used_def
  delete_video_def release_used_def remove_remote_def
  response_status_def upload_scope_userBitrateLimit_def

lemmas probe_defs =
  probe_media_def getVideoInfo_def default_media_def read_format_def
  read_streams_def str_or_def int_or_def to_kbps_def

lemmas compat_defs = isCompatibleCodec_def isCompatibleFormat_def videoExtensions_def

lemmas upload_defs = upload_handler_def upload_try_def catch_outer_def select_destination_def

lemmas auto_splits = option.splits sum.splits list.splits if_splits prod.splits

section \<open>Generated file names\<close>













section \<open>Concrete runs, evaluated\<close>

lemma scn_file_eq:
  "scn_file name sz =
     \<lparr>file_originalname = name,
      file_filename = ''1700000000000_'' @ sanitizedName name,
      file_path = ''/tmp/video-uploads/1700000000000_'' @ sanitizedName name,
      file_size = sz, file_mimetype = ''video/mp4''\<rparr>"
  by (simp add: scn_file_def multer_file_def storage_filename_def show_nat.simps digit_chars_def)

lemma scn_names:
  "sanitizedName ''a.mp4'' = ''a.mp4''" "sanitizedName ''a.mkv'' = ''a.mkv''"
  by (simp_all add: sanitizedName_def replace_unsafe_def name_char_def string_defs)

lemmas scn_defs =
  scn_user_def scn_file_eq scn_names scn_req_def scn_world_def scn_probe_def scn_env_def

lemmas run_defs = scn_defs upload_defs step_defs probe_defs compat_defs string_defs ceil_mb_def Let_def

lemma run_mp4_h264:
  "upload_handler (scn_env (scn_probe ''h264'' 3000000)) (scn_req ''a.mp4'' 5000000 (Some 5))
     (scn_world ''a.mp4'' 100) =
   (\<lparr>status = 500, body = UploadFailed (ReferenceError ''userBitrateLimit'')\<rparr>,
    \<lparr>local_files = {},
     remote_files = {(2, ''/home/streaming/ana/aulas/1700000000000_a.mp4'')},
     streamings = [\<lparr>codigo = 5, codigo_cliente = 7, codigo_servidor = 2,
                    identificacao = ''aulas'', espaco = 1000, espaco_usado = 105\<rparr>],
     videos = [\<lparr>v_id = 1, v_nome = ''a.mp4'',
                v_url = Some ''ana/aulas/1700000000000_a.mp4'',
                v_caminho = Some ''/home/streaming/ana/aulas/1700000000000_a.mp4'',
                v_duracao = 60, v_tamanho_arquivo = 5000000, v_codigo_cliente = 7,
                v_pasta = 5, v_bitrate_video = Some 3000,
                v_formato_original = ''mov,mp4,m4a,3gp,3g2,mj2'',
                v_codec_video = Some ''h264'', v_largura = 1280, v_altura = 720,
                v_is_mp4 = 1, v_compativel = ''sim''\<rparr>],
     next_id = 2,
     log = [SshStructure 2 ''ana'', SshFolder 2 ''ana'' ''aulas'',
            SshUpload 2 ''/tmp/video-uploads/1700000000000_a.mp4''
              ''/home/streaming/ana/aulas/1700000000000_a.mp4'',
            LocalUnlink ''/tmp/video-uploads/1700000000000_a.mp4'',
            DbInsertVideo 1, DbAddUsed 5 5, SmilUpdate 7]\<rparr>)"
  by (simp add: run_defs)

lemma run_missing_folder:
  "upload_handler (scn_env (scn_probe ''h264'' 3000000)) (scn_req ''a.mp4'' 5000000 (Some 99))
     (scn_world ''a.mp4'' 100) =
   (\<lparr>status = 404, body = FolderNotFound\<rparr>, scn_world ''a.mp4'' 100)"
  by (simp add: run_defs)

lemma run_no_folder_id:
  "upload_handler (scn_env (scn_probe ''h264'' 3000000)) (scn_req ''a.mp4'' 5000000 None)
     (scn_world ''a.mp4'' 100) =
   (\<lparr>status = 404, body = FolderNotFound\<rparr>, scn_world ''a.mp4'' 100)"
  by (simp add: run_defs)

lemma run_mkv_h264:
  "upload_handler (scn_env (scn_probe ''h264'' 3000000)) (scn_req ''a.mkv'' 5000000 (Some 5))
     (scn_world ''a.mkv'' 100) =
   (\<lparr>status = 201,
     body = Created
       \<lparr>c_id = 1, c_nome = ''a.mkv'', c_url = ''ana/aulas/1700000000000_a.mkv'',
        c_path = ''/home/streaming/ana/aulas/1700000000000_a.mkv'',
        c_originalFile = ''/home/streaming/ana/aulas/1700000000000_a.mkv'',
        c_bitrate_video = 3000, c_codec_video = ''h264'', c_formato_original = ''mkv'',
        c_largura = 1280, c_altura = 720, c_is_mp4 = False, c_needs_conversion = True,
        c_compatibility_status = NecessarioConversao, c_compatibility_color = ''red'',
        c_duracao = 60, c_tamanho = 5000000, c_space_used_mb = 5\<rparr>\<rparr>,
    \<lparr>local_files = {},
     remote_files = {(2, ''/home/streaming/ana/aulas/1700000000000_a.mkv'')},
     streamings = [\<lparr>codigo = 5, codigo_cliente = 7, codigo_servidor = 2,
                    identificacao = ''aulas'', espaco = 1000, espaco_usado = 105\<rparr>],
     videos = [\<lparr>v_id = 1, v_nome = ''a.mkv'',
                v_url = Some ''ana/aulas/1700000000000_a.mkv'',
                v_caminho = Some ''/home/streaming/ana/aulas/1700000000000_a.mkv'',
                v_duracao = 60, v_tamanho_arquivo = 5000000, v_codigo_cliente = 7,
                v_pasta = 5, v_bitrate_video = Some 3000,
                v_formato_original = ''mov,mp4,m4a,3gp,3g2,mj2'',
                v_codec_video = Some ''h264'', v_largura = 1280, v_altura = 720,
                v_is_mp4 = 0, v_compativel = ''nao''\<rparr>],
     next_id = 2,
     log = [SshStructure 2 ''ana'', SshFolder 2 ''ana'' ''aulas'',
            SshUpload 2 ''/tmp/video-uploads/1700000000000_a.mkv''
              ''/home/streaming/ana/aulas/1700000000000_a.mkv'',
            LocalUnlink ''/tmp/video-uploads/1700000000000_a.mkv'',
            DbInsertVideo 1, DbAddUsed 5 5, SmilUpdate 7]\<rparr>)"
  by (simp add: run_defs)

lemma run_insert_fails:
  "upload_handler ((scn_env (scn_probe ''h264'' 3000000))\<lparr>u_insert_ok := False\<rparr>)
     (scn_req ''a.mkv'' 5000000 (Some 5)) (scn_world ''a.mkv'' 100) =
   (\<lparr>status = 500, body = UploadFailed DbError\<rparr>,
    \<lparr>local_files = {},
     remote_files = {(2, ''/home/streaming/ana/aulas/1700000000000_a.mkv'')},
     streamings = [\<lparr>codigo = 5, codigo_cliente = 7, codigo_servidor = 2,
                    identificacao = ''aulas'', espaco = 1000, espaco_usado = 100\<rparr>],
     videos = [],
     next_id = 1,
     log = [SshStructure 2 ''ana'', SshFolder 2 ''ana'' ''aulas'',
            SshUpload 2 ''/tmp/video-uploads/1700000000000_a.mkv''
              ''/home/streaming/ana/aulas/1700000000000_a.mkv'',
            LocalUnlink ''/tmp/video-uploads/1700000000000_a.mkv'']\<rparr>)"
  by (simp add: run_defs)

lemma run_transfer_fails:
  "upload_handler ((scn_env (scn_probe ''h264'' 3000000))\<lparr>u_transfer_ok := False\<rparr>)
     (scn_req ''a.mkv'' 5000000 (Some 5)) (scn_world ''a.mkv'' 100) =
   (\<lparr>status = 500, body = UploadFailed SshError\<rparr>,
    \<lparr>local_files = {},
     remote_files = {},
     streamings = [\<lparr>codigo = 5, codigo_cliente = 7, codigo_servidor = 2,
                    identificacao = ''aulas'', espaco = 1000, espaco_usado = 100\<rparr>],
     videos = [],
     next_id = 1,
     log = [SshStructure 2 ''ana'', SshFolder 2 ''ana'' ''aulas'',
            LocalUnlink ''/tmp/video-uploads/1700000000000_a.mkv'']\<rparr>)"
  by (simp add: run_defs)

lemma run_quota_exceeded:
  "upload_handler (scn_env (scn_probe ''h264'' 3000000)) (scn_req ''a.mp4'' 6291456 (Some 5))
     (scn_world ''a.mp4'' 995) =
   (\<lparr>status = 400,
     body = InsufficientSpace
       \<lparr>sp_required = 6, sp_available = 5, sp_total = 1000, sp_used = 995\<rparr>\<rparr>,
    \<lparr>local_files = {},
     remote_files = {},
     streamings = [\<lparr>codigo = 5, codigo_cliente = 7, codigo_servidor = 2,
                    identificacao = ''aulas'', espaco = 1000, espaco_usado = 995\<rparr>],
     videos = [],
     next_id = 1,
     log = [LocalUnlink ''/tmp/video-uploads/1700000000000_a.mp4'']\<rparr>)"
  by (simp add: run_defs)

lemma run_probe_fails:
  "upload_handler (scn_env (ProcClose 1 NoOutput)) (scn_req ''a.mp4'' 5000000 (Some 5))
     (scn_world ''a.mp4'' 100) =
   (\<lparr>status = 201,
     body = Created
       \<lparr>c_id = 1, c_nome = ''a.mp4'', c_url = ''ana/aulas/1700000000000_a.mp4'',
        c_path = ''/home/streaming/ana/aulas/1700000000000_a.mp4'',
        c_originalFile = ''/home/streaming/ana/aulas/1700000000000_a.mp4'',
        c_bitrate_video = 0, c_codec_video = ''unknown'', c_formato_original = ''mp4'',
        c_largura = 0, c_altura = 0, c_is_mp4 = True, c_needs_conversion = True,
        c_compatibility_status = NecessarioConversao, c_compatibility_color = ''red'',
        c_duracao = 0, c_tamanho = 5000000, c_space_used_mb = 5\<rparr>\<rparr>,
    \<lparr>local_files = {},
     remote_files = {(2, ''/home/streaming/ana/aulas/1700000000000_a.mp4'')},
     streamings = [\<lparr>codigo = 5, codigo_cliente = 7, codigo_servidor = 2,
                    identificacao = ''aulas'', espaco = 1000, espaco_usado = 105\<rparr>],
     videos = [\<lparr>v_id = 1, v_nome = ''a.mp4'',
                v_url = Some ''ana/aulas/1700000000000_a.mp4'',
                v_caminho = Some ''/home/streaming/ana/aulas/1700000000000_a.mp4'',
                v_duracao = 0, v_tamanho_arquivo = 5000000, v_codigo_cliente = 7,
                v_pasta = 5, v_bitrate_video = Some 0,
                v_formato_original = ''mp4'',
                v_codec_video = Some ''unknown'', v_largura = 0, v_altura = 0,
                v_is_mp4 = 1, v_compativel = ''nao''\<rparr>],
     next_id = 2,
     log = [SshStructure 2 ''ana'', SshFolder 2 ''ana'' ''aulas'',
            SshUpload 2 ''/tmp/video-uploads/1700000000000_a.mp4''
              ''/home/streaming/ana/aulas/1700000000000_a.mp4'',
            LocalUnlink ''/tmp/video-uploads/1700000000000_a.mp4'',
            DbInsertVideo 1, DbAddUsed 5 5, SmilUpdate 7]\<rparr>)"
  by (simp add: run_defs)

lemma run_list_mkv:
  "\<exists>item. listed (list_handler scn_list_env scn_list_req
       (snd (upload_handler (scn_env (scn_probe ''h264'' 3000000))
               (scn_req ''a.mkv'' 5000000 (Some 5)) (scn_world ''a.mkv'' 100)))) = [item]
     \<and> v_nome (li_video item) = ''a.mkv'' \<and> li_bitrate_exceeds_limit item
     \<and> li_codec_compatible item"
  unfolding run_mkv_h264
  by (simp add: list_handler_def list_entry_def listed_def scn_list_env_def
      scn_list_req_def scn_user_def compat_defs string_defs int_or_def Let_def)


section \<open>The used-capacity counter\<close>














section \<open>Extensions and formats\<close>

lemma lower_char_idem: "lower_char (lower_char c) = lower_char c"
  by (simp add: lower_char_def upper_chars_def lower_chars_def)

lemma extname_shape: "extname p = [] \<or> (\<exists>e. extname p = CHR ''.'' # e)"
  by (simp add: extname_def Let_def)

lemma format_compatible_mp4:
  assumes "isCompatibleFormat fmt (toLowerCase (extname n))"
  shows "toLowerCase (extname n) = ''.mp4''"
proof -
  have dot: "lower_char CHR ''.'' = CHR ''.''"
    by (simp add: lower_char_def upper_chars_def lower_chars_def)
  from extname_shape[of n] show ?thesis
  proof
    assume "extname n = []"
    with assms show ?thesis by (simp add: isCompatibleFormat_def toLowerCase_def)
  next
    assume "\<exists>e. extname n = CHR ''.'' # e"
    then obtain e where e: "extname n = CHR ''.'' # e" ..
    with assms dot have "map lower_char (map lower_char e) = ''mp4''"
      by (simp add: isCompatibleFormat_def toLowerCase_def)
    moreover have "lower_char \<circ> lower_char = lower_char"
      by (simp add: fun_eq_iff lower_char_idem)
    ultimately have "map lower_char e = ''mp4''"
      by simp
    with e dot show ?thesis by (simp add: toLowerCase_def)
  qed
qed

lemma list_entry_non_mp4:
  assumes "toLowerCase (extname (v_nome video)) \<noteq> ''.mp4''"
  shows "li_needs_conversion (list_entry userLogin folderName limit video)
    \<and> li_compatibility_status (list_entry userLogin folderName limit video) = ''needs_conversion''"
  using assms format_compatible_mp4[of "v_formato_original video" "v_nome video"]
  by (auto simp: list_entry_def Let_def)

lemma listed_entries:
  "item \<in> set (listed (list_handler lenv lreq w)) \<Longrightarrow>
     \<exists>userLogin folderName limit video. item = list_entry userLogin folderName limit video"
  by (auto simp: listed_def list_handler_def Let_def split: auto_splits)

lemma li_video_entry: "li_video (list_entry userLogin folderName limit video) = video"
  by (simp add: list_entry_def Let_def)

section \<open>The claims about the pipelines\<close>

text \<open>
  C1. An upload of an \<open>.mp4\<close> file probed as \<open>h264\<close> at 3000 kbps, by an account
  whose ceiling is 2500 kbps, is expected to complete and to report a high bitrate.
  The handler instead answers 500: the file is placed, the record is inserted and the
  counter is incremented, and then the comparison with \<open>userBitrateLimit\<close> throws.
  The list path classifies the record it left behind as \<open>bitrate_high\<close>.
\<close>

theorem upload_mp4_h264_over_ceiling_fails:
  "status (fst (upload_handler (scn_env (scn_probe ''h264'' 3000000))
                  (scn_req ''a.mp4'' 5000000 (Some 5)) (scn_world ''a.mp4'' 100))) = 500
   \<and> body (fst (upload_handler (scn_env (scn_probe ''h264'' 3000000))
                  (scn_req ''a.mp4'' 5000000 (Some 5)) (scn_world ''a.mp4'' 100)))
       = UploadFailed (ReferenceError ''userBitrateLimit'')
   \<and> map v_bitrate_video (videos (snd (upload_handler (scn_env (scn_probe ''h264'' 3000000))
                  (scn_req ''a.mp4'' 5000000 (Some 5)) (scn_world ''a.mp4'' 100)))) = [Some 3000]
   \<and> map li_compatibility_status
        (listed (list_handler scn_list_env scn_list_req
           (snd (upload_handler (scn_env (scn_probe ''h264'' 3000000))
                  (scn_req ''a.mp4'' 5000000 (Some 5)) (scn_world ''a.mp4'' 100)))))
       = [''bitrate_high'']"
  by (simp add: run_mp4_h264 list_handler_def list_entry_def listed_def scn_list_env_def
      scn_list_req_def scn_user_def compat_defs string_defs int_or_def Let_def)

text \<open>
  C2, as stated, fails: when the transfer succeeds and the insert fails, the remote
  file stays on the server although no record exists for it.
\<close>

theorem insert_failure_leaves_remote_file:
  "status (fst (upload_handler ((scn_env (scn_probe ''h264'' 3000000))\<lparr>u_insert_ok := False\<rparr>)
                  (scn_req ''a.mkv'' 5000000 (Some 5)) (scn_world ''a.mkv'' 100))) = 500
   \<and> (2, ''/home/streaming/ana/aulas/1700000000000_a.mkv'')
       \<in> remote_files (snd (upload_handler ((scn_env (scn_probe ''h264'' 3000000))\<lparr>u_insert_ok := False\<rparr>)
                  (scn_req ''a.mkv'' 5000000 (Some 5)) (scn_world ''a.mkv'' 100)))
   \<and> videos (snd (upload_handler ((scn_env (scn_probe ''h264'' 3000000))\<lparr>u_insert_ok := False\<rparr>)
                  (scn_req ''a.mkv'' 5000000 (Some 5)) (scn_world ''a.mkv'' 100))) = []"
  by (simp add: run_insert_fails)

text \<open>
  C2, amended. When remote placement succeeds and the insert of the record fails, the
  handler answers 500 with the cause; no record is added, the used-capacity counter is
  unchanged (it is incremented only after a successful insert, so no quota is held),
  the temporary file is gone, and the placed remote file stays where it is.
\<close>

theorem insert_failure_outcome:
  assumes "req_file req = Some f"
    and "user_email (req_user req) = Some email"
    and "toLowerCase (extname (file_originalname f)) \<in> set videoExtensions"
    and "select_destination (u_select_ok env)
           (case req_folder_id req of None \<Rightarrow> FolderDefault | Some n \<Rightarrow> FolderId n)
           (user_id (req_user req)) w = Inr (userData # rest)"
    and "ceil_mb (file_size f) \<le> espaco userData - espaco_usado userData"
    and "u_structure_ok env" and "u_folder_ok env" and "u_transfer_ok env"
    and "file_path f \<in> local_files w"
    and "\<not> u_insert_ok env"
  shows "status (fst (upload_handler env req w)) = 500
    \<and> body (fst (upload_handler env req w)) = UploadFailed DbError
    \<and> (if codigo_servidor userData = 0 then 1 else codigo_servidor userData,
        ''/home/streaming/'' @ before_at email @ ''/'' @ identificacao userData @ ''/'' @ file_filename f)
       \<in> remote_files (snd (upload_handler env req w))
    \<and> videos (snd (upload_handler env req w)) = videos w
    \<and> streamings (snd (upload_handler env req w)) = streamings w
    \<and> file_path f \<notin> local_files (snd (upload_handler env req w))"
  using assms
  by (auto simp: upload_handler_def upload_try_def catch_outer_def step_defs Let_def
      split: auto_splits)

theorem insert_failure_outcome_witness:
  "status (fst (upload_handler ((scn_env (scn_probe ''h264'' 3000000))\<lparr>u_insert_ok := False\<rparr>)
                  (scn_req ''a.mkv'' 5000000 (Some 5)) (scn_world ''a.mkv'' 100))) = 500
   \<and> body (fst (upload_handler ((scn_env (scn_probe ''h264'' 3000000))\<lparr>u_insert_ok := False\<rparr>)
                  (scn_req ''a.mkv'' 5000000 (Some 5)) (scn_world ''a.mkv'' 100)))
       = UploadFailed DbError
   \<and> map espaco_usado (streamings (snd (upload_handler
         ((scn_env (scn_probe ''h264'' 3000000))\<lparr>u_insert_ok := False\<rparr>)
         (scn_req ''a.mkv'' 5000000 (Some 5)) (scn_world ''a.mkv'' 100)))) = [100]
   \<and> file_path (scn_file ''a.mkv'' 5000000)
       \<notin> local_files (snd (upload_handler ((scn_env (scn_probe ''h264'' 3000000))\<lparr>u_insert_ok := False\<rparr>)
                  (scn_req ''a.mkv'' 5000000 (Some 5)) (scn_world ''a.mkv'' 100)))"
proof -
  let ?env = "(scn_env (scn_probe ''h264'' 3000000))\<lparr>u_insert_ok := False\<rparr>"
  let ?req = "scn_req ''a.mkv'' 5000000 (Some 5)"
  let ?w = "scn_world ''a.mkv'' 100"
  let ?row = "\<lparr>codigo = 5, codigo_cliente = 7, codigo_servidor = 2,
               identificacao = ''aulas'', espaco = 1000, espaco_usado = 100\<rparr>"
  have h1: "req_file ?req = Some (scn_file ''a.mkv'' 5000000)"
    and h2: "user_email (req_user ?req) = Some ''ana@example.com''"
    by (simp_all add: scn_req_def scn_user_def)
  have h3: "toLowerCase (extname (file_originalname (scn_file ''a.mkv'' 5000000)))
              \<in> set videoExtensions"
    by (simp add: scn_file_eq string_defs videoExtensions_def)
  have h4: "select_destination (u_select_ok ?env)
              (case req_folder_id ?req of None \<Rightarrow> FolderDefault | Some n \<Rightarrow> FolderId n)
              (user_id (req_user ?req)) ?w = Inr (?row # [])"
    by (simp add: select_destination_def scn_env_def scn_req_def scn_user_def scn_world_def)
  have h5: "ceil_mb (file_size (scn_file ''a.mkv'' 5000000)) \<le> espaco ?row - espaco_usado ?row"
    by (simp add: scn_file_eq ceil_mb_def)
  have h6: "u_structure_ok ?env" "u_folder_ok ?env" "u_transfer_ok ?env" "\<not> u_insert_ok ?env"
    by (simp_all add: scn_env_def)
  have h7: "file_path (scn_file ''a.mkv'' 5000000) \<in> local_files ?w"
    by (simp add: scn_world_def scn_file_eq)
  from insert_failure_outcome[OF h1 h2 h3 h4 h5 h6(1) h6(2) h6(3) h7 h6(4)] show ?thesis
    by (simp add: scn_world_def)
qed

text \<open>
  Every answer of the upload handler other than 404 leaves no temporary file behind.
\<close>

lemma temp_file_removed_unless_404:
  assumes "req_file req = Some f" and "file_path f \<noteq> []"
    and "status (fst (upload_handler env req w)) \<noteq> 404"
  shows "file_path f \<notin> local_files (snd (upload_handler env req w))"
  using assms
  by (auto simp: upload_handler_def upload_try_def catch_outer_def step_defs Let_def
      split: auto_splits)

text \<open>
  C3. Every exit path is expected to delete the temporary file. The answer 404 for a
  destination that is not found leaves it in place.
\<close>

theorem destination_not_found_keeps_temp_file:
  "status (fst (upload_handler (scn_env (scn_probe ''h264'' 3000000))
                  (scn_req ''a.mp4'' 5000000 (Some 99)) (scn_world ''a.mp4'' 100))) = 404
   \<and> file_path (scn_file ''a.mp4'' 5000000)
       \<in> local_files (snd (upload_handler (scn_env (scn_probe ''h264'' 3000000))
                  (scn_req ''a.mp4'' 5000000 (Some 99)) (scn_world ''a.mp4'' 100)))"
  unfolding run_missing_folder by (simp add: scn_world_def scn_file_eq)




text \<open>
  C5. An upload that reaches the quota check with \<open>spaceMB\<close> greater than the
  available space is answered 400 with the breakdown (required, available, total,
  used); nothing is placed remotely, no record and no counter changes, the only effect
  is the removal of the temporary file. For 6,291,456 bytes against capacity 1000 MB
  and 995 MB used, the breakdown reports required 6 and available 5.
\<close>

theorem quota_exceeded_rejected:
  assumes "req_file req = Some f"
    and "user_email (req_user req) = Some email"
    and "toLowerCase (extname (file_originalname f)) \<in> set videoExtensions"
    and "select_destination (u_select_ok env)
           (case req_folder_id req of None \<Rightarrow> FolderDefault | Some n \<Rightarrow> FolderId n)
           (user_id (req_user req)) w = Inr (userData # rest)"
    and "ceil_mb (file_size f) > espaco userData - espaco_usado userData"
  shows "status (fst (upload_handler env req w)) = 400
    \<and> body (fst (upload_handler env req w)) =
        InsufficientSpace
          \<lparr>sp_required = ceil_mb (file_size f),
           sp_available = espaco userData - espaco_usado userData,
           sp_total = espaco userData, sp_used = espaco_usado userData\<rparr>
    \<and> remote_files (snd (upload_handler env req w)) = remote_files w
    \<and> videos (snd (upload_handler env req w)) = videos w
    \<and> streamings (snd (upload_handler env req w)) = streamings w
    \<and> next_id (snd (upload_handler env req w)) = next_id w
    \<and> list_all (\<lambda>e. \<not> is_remote_or_db e)
         (drop (length (log w)) (log (snd (upload_handler env req w))))
    \<and> file_path f \<notin> local_files (snd (upload_handler env req w))"
  using assms
  by (auto simp: upload_handler_def step_defs Let_def split: auto_splits)

theorem quota_exceeded_rejected_witness:
  "ceil_mb 6291456 = 6
   \<and> status (fst (upload_handler (scn_env (scn_probe ''h264'' 3000000))
                  (scn_req ''a.mp4'' 6291456 (Some 5)) (scn_world ''a.mp4'' 995))) = 400
   \<and> body (fst (upload_handler (scn_env (scn_probe ''h264'' 3000000))
                  (scn_req ''a.mp4'' 6291456 (Some 5)) (scn_world ''a.mp4'' 995)))
       = InsufficientSpace \<lparr>sp_required = 6, sp_available = 5, sp_total = 1000, sp_used = 995\<rparr>
   \<and> remote_files (snd (upload_handler (scn_env (scn_probe ''h264'' 3000000))
                  (scn_req ''a.mp4'' 6291456 (Some 5)) (scn_world ''a.mp4'' 995))) = {}
   \<and> videos (snd (upload_handler (scn_env (scn_probe ''h264'' 3000000))
                  (scn_req ''a.mp4'' 6291456 (Some 5)) (scn_world ''a.mp4'' 995))) = []
   \<and> map espaco_usado (streamings (snd (upload_handler (scn_env (scn_probe ''h264'' 3000000))
                  (scn_req ''a.mp4'' 6291456 (Some 5)) (scn_world ''a.mp4'' 995)))) = [995]
   \<and> file_path (scn_file ''a.mp4'' 6291456)
       \<notin> local_files (snd (upload_handler (scn_env (scn_probe ''h264'' 3000000))
                  (scn_req ''a.mp4'' 6291456 (Some 5)) (scn_world ''a.mp4'' 995)))"
proof -
  let ?env = "scn_env (scn_probe ''h264'' 3000000)"
  let ?req = "scn_req ''a.mp4'' 6291456 (Some 5)"
  let ?w = "scn_world ''a.mp4'' 995"
  let ?row = "\<lparr>codigo = 5, codigo_cliente = 7, codigo_servidor = 2,
               identificacao = ''aulas'', espaco = 1000, espaco_usado = 995\<rparr>"
  have c: "ceil_mb 6291456 = 6"
    by (simp add: ceil_mb_def)
  have h1: "req_file ?req = Some (scn_file ''a.mp4'' 6291456)"
    and h2: "user_email (req_user ?req) = Some ''ana@example.com''"
    by (simp_all add: scn_req_def scn_user_def)
  have h3: "toLowerCase (extname (file_originalname (scn_file ''a.mp4'' 6291456)))
              \<in> set videoExtensions"
    by (simp add: scn_file_eq string_defs videoExtensions_def)
  have h4: "select_destination (u_select_ok ?env)
              (case req_folder_id ?req of None \<Rightarrow> FolderDefault | Some n \<Rightarrow> FolderId n)
              (user_id (req_user ?req)) ?w = Inr (?row # [])"
    by (simp add: select_destination_def scn_env_def scn_req_def scn_user_def scn_world_def)
  have h5: "ceil_mb (file_size (scn_file ''a.mp4'' 6291456)) > espaco ?row - espaco_usado ?row"
    by (simp add: scn_file_eq ceil_mb_def)
  from quota_exceeded_rejected[OF h1 h2 h3 h4 h5] c show ?thesis
    by (simp add: scn_world_def scn_file_eq)
qed

text \<open>
  C6. When the media probe fails (spawn error, non-zero exit, empty or unparseable
  output), the upload is not aborted: when the later stages succeed it is answered 201
  and the persisted record has duration 0, bitrate 0 and codec \<open>unknown\<close>.
\<close>

theorem probe_failure_keeps_defaults:
  assumes "getVideoInfo (u_ffprobe env) = Inl probeError"
    and "req_file req = Some f"
    and "user_email (req_user req) = Some email"
    and "toLowerCase (extname (file_originalname f)) \<in> set videoExtensions"
    and "select_destination (u_select_ok env)
           (case req_folder_id req of None \<Rightarrow> FolderDefault | Some n \<Rightarrow> FolderId n)
           (user_id (req_user req)) w = Inr (userData # rest)"
    and "ceil_mb (file_size f) \<le> espaco userData - espaco_usado userData"
    and "u_structure_ok env" and "u_folder_ok env" and "u_transfer_ok env"
    and "file_path f \<in> local_files w"
    and "u_insert_ok env" and "u_update_ok env"
  shows "status (fst (upload_handler env req w)) = 201
    \<and> (\<exists>row. videos (snd (upload_handler env req w)) = videos w @ [row]
          \<and> v_nome row = file_originalname f
          \<and> v_duracao row = 0
          \<and> v_bitrate_video row = Some 0
          \<and> v_codec_video row = Some ''unknown'')"
  using assms
  by (auto simp: upload_handler_def upload_try_def catch_outer_def step_defs Let_def
      probe_media_def default_media_def isCompatibleCodec_def string_defs
      split: auto_splits)

theorem probe_failure_keeps_defaults_witness:
  "status (fst (upload_handler (scn_env (ProcClose 1 NoOutput))
                  (scn_req ''a.mp4'' 5000000 (Some 5)) (scn_world ''a.mp4'' 100))) = 201
   \<and> map v_duracao (videos (snd (upload_handler (scn_env (ProcClose 1 NoOutput))
                  (scn_req ''a.mp4'' 5000000 (Some 5)) (scn_world ''a.mp4'' 100)))) = [0]
   \<and> map v_bitrate_video (videos (snd (upload_handler (scn_env (ProcClose 1 NoOutput))
                  (scn_req ''a.mp4'' 5000000 (Some 5)) (scn_world ''a.mp4'' 100)))) = [Some 0]
   \<and> map v_codec_video (videos (snd (upload_handler (scn_env (ProcClose 1 NoOutput))
                  (scn_req ''a.mp4'' 5000000 (Some 5)) (scn_world ''a.mp4'' 100))))
       = [Some ''unknown'']"
proof -
  let ?env = "scn_env (ProcClose 1 NoOutput)"
  let ?req = "scn_req ''a.mp4'' 5000000 (Some 5)"
  let ?w = "scn_world ''a.mp4'' 100"
  let ?row = "\<lparr>codigo = 5, codigo_cliente = 7, codigo_servidor = 2,
               identificacao = ''aulas'', espaco = 1000, espaco_usado = 100\<rparr>"
  have h0: "getVideoInfo (u_ffprobe ?env) = Inl ProbeFailed"
    by (simp add: getVideoInfo_def scn_env_def)
  have h1: "req_file ?req = Some (scn_file ''a.mp4'' 5000000)"
    and h2: "user_email (req_user ?req) = Some ''ana@example.com''"
    by (simp_all add: scn_req_def scn_user_def)
  have h3: "toLowerCase (extname (file_originalname (scn_file ''a.mp4'' 5000000)))
              \<in> set videoExtensions"
    by (simp add: scn_file_eq string_defs videoExtensions_def)
  have h4: "select_destination (u_select_ok ?env)
              (case req_folder_id ?req of None \<Rightarrow> FolderDefault | Some n \<Rightarrow> FolderId n)
              (user_id (req_user ?req)) ?w = Inr (?row # [])"
    by (simp add: select_destination_def scn_env_def scn_req_def scn_user_def scn_world_def)
  have h5: "ceil_mb (file_size (scn_file ''a.mp4'' 5000000)) \<le> espaco ?row - espaco_usado ?row"
    by (simp add: scn_file_eq ceil_mb_def)
  have h6: "u_structure_ok ?env" "u_folder_ok ?env" "u_transfer_ok ?env"
    "u_insert_ok ?env" "u_update_ok ?env"
    by (simp_all add: scn_env_def)
  have h7: "file_path (scn_file ''a.mp4'' 5000000) \<in> local_files ?w"
    by (simp add: scn_world_def scn_file_eq)
  have v: "videos ?w = []"
    by (simp add: scn_world_def)
  from probe_failure_keeps_defaults[OF h0 h1 h2 h3 h4 h5 h6(1) h6(2) h6(3) h7 h6(4) h6(5)] v
  show ?thesis
    by auto
qed

text \<open>
  C7. For a file whose extension is not \<open>.mp4\<close>, whatever the probed codec and
  bitrate: every success answer of the create path reports that a conversion is needed,
  and every element of the list path for a record of that name has
  \<open>needs_conversion\<close> set and the status \<open>needs_conversion\<close>, never
  \<open>bitrate_high\<close>.
\<close>

theorem non_mp4_needs_conversion:
  assumes "toLowerCase (extname name) \<noteq> ''.mp4''"
  shows "(req_file req = Some f \<and> file_originalname f = name
            \<and> body (fst (upload_handler env req w)) = Created c
          \<longrightarrow> c_needs_conversion c \<and> \<not> c_is_mp4 c
              \<and> c_compatibility_status c = NecessarioConversao)
    \<and> (item \<in> set (listed (list_handler lenv lreq lw)) \<and> v_nome (li_video item) = name
          \<longrightarrow> li_needs_conversion item \<and> li_compatibility_status item = ''needs_conversion'')"
proof (intro conjI impI)
  assume a: "req_file req = Some f \<and> file_originalname f = name
            \<and> body (fst (upload_handler env req w)) = Created c"
  with assms show "c_needs_conversion c" "\<not> c_is_mp4 c"
    "c_compatibility_status c = NecessarioConversao"
    by (auto simp: upload_handler_def upload_try_def catch_outer_def step_defs Let_def
        split: auto_splits)
next
  assume a: "item \<in> set (listed (list_handler lenv lreq lw)) \<and> v_nome (li_video item) = name"
  then obtain userLogin folderName limit video
    where i: "item = list_entry userLogin folderName limit video"
    using listed_entries by blast
  with a have "v_nome video = name" by (simp add: li_video_entry)
  with assms i list_entry_non_mp4[of video userLogin folderName limit]
  show "li_needs_conversion item" "li_compatibility_status item = ''needs_conversion''"
    by simp_all
qed

theorem non_mp4_needs_conversion_witness:
  "map_option c_needs_conversion
     (created_of (fst (upload_handler (scn_env (scn_probe ''h264'' 3000000))
                         (scn_req ''a.mkv'' 5000000 (Some 5)) (scn_world ''a.mkv'' 100))))
     = Some True
   \<and> map_option c_compatibility_status
     (created_of (fst (upload_handler (scn_env (scn_probe ''h264'' 3000000))
                         (scn_req ''a.mkv'' 5000000 (Some 5)) (scn_world ''a.mkv'' 100))))
     = Some NecessarioConversao
   \<and> map li_compatibility_status
       (listed (list_handler scn_list_env scn_list_req
          (snd (upload_handler (scn_env (scn_probe ''h264'' 3000000))
                  (scn_req ''a.mkv'' 5000000 (Some 5)) (scn_world ''a.mkv'' 100)))))
     = [''needs_conversion'']
   \<and> map li_bitrate_exceeds_limit
       (listed (list_handler scn_list_env scn_list_req
          (snd (upload_handler (scn_env (scn_probe ''h264'' 3000000))
                  (scn_req ''a.mkv'' 5000000 (Some 5)) (scn_world ''a.mkv'' 100)))))
     = [True]"
proof -
  let ?env = "scn_env (scn_probe ''h264'' 3000000)"
  let ?req = "scn_req ''a.mkv'' 5000000 (Some 5)"
  let ?w = "scn_world ''a.mkv'' 100"
  have h: "toLowerCase (extname ''a.mkv'') \<noteq> ''.mp4''"
    by (simp add: string_defs)
  obtain c where c: "body (fst (upload_handler ?env ?req ?w)) = Created c"
    by (simp add: run_mkv_h264)
  obtain item where item:
    "listed (list_handler scn_list_env scn_list_req (snd (upload_handler ?env ?req ?w))) = [item]"
    "v_nome (li_video item) = ''a.mkv''" "li_bitrate_exceeds_limit item"
    using run_list_mkv by blast
  have f: "req_file ?req = Some (scn_file ''a.mkv'' 5000000)"
    "file_originalname (scn_file ''a.mkv'' 5000000) = ''a.mkv''"
    by (simp_all add: scn_req_def scn_file_eq)
  from non_mp4_needs_conversion[OF h, where req = ?req and f = "scn_file ''a.mkv'' 5000000"
         and env = ?env and w = ?w and c = c and item = item and lenv = scn_list_env
         and lreq = scn_list_req and lw = "snd (upload_handler ?env ?req ?w)"] c item f
  show ?thesis
    by (simp add: created_of_def)
qed



text \<open>
  C9, as stated, fails: an upload without a destination identifier is not answered
  400.
\<close>

theorem missing_folder_id_not_rejected:
  "status (fst (upload_handler (scn_env (scn_probe ''h264'' 3000000))
                  (scn_req ''a.mp4'' 5000000 None) (scn_world ''a.mp4'' 100))) = 404
   \<and> status (fst (upload_handler (scn_env (scn_probe ''h264'' 3000000))
                  (scn_req ''a.mp4'' 5000000 None) (scn_world ''a.mp4'' 100))) \<noteq> 400"
  by (simp add: run_no_folder_id)

text \<open>
  C9, amended. An upload that supplies no destination identifier is not rejected at
  validation: the identifier defaults to \<open>default\<close> and the destination lookup runs
  with it. When that lookup finds nothing, the answer is 404, and no remote file, no
  record and no counter changes.
\<close>

theorem missing_folder_id_defaults:
  assumes "req_folder_id req = None"
    and "req_file req = Some f"
    and "user_email (req_user req) = Some email"
    and "toLowerCase (extname (file_originalname f)) \<in> set videoExtensions"
    and "select_destination (u_select_ok env) FolderDefault (user_id (req_user req)) w = Inr []"
  shows "status (fst (upload_handler env req w)) = 404
    \<and> body (fst (upload_handler env req w)) = FolderNotFound
    \<and> remote_files (snd (upload_handler env req w)) = remote_files w
    \<and> videos (snd (upload_handler env req w)) = videos w
    \<and> streamings (snd (upload_handler env req w)) = streamings w"
  using assms by (simp add: upload_handler_def Let_def)

theorem missing_folder_id_defaults_witness:
  "status (fst (upload_handler (scn_env (scn_probe ''h264'' 3000000))
                  (scn_req ''a.mp4'' 5000000 None) (scn_world ''a.mp4'' 100))) = 404
   \<and> body (fst (upload_handler (scn_env (scn_probe ''h264'' 3000000))
                  (scn_req ''a.mp4'' 5000000 None) (scn_world ''a.mp4'' 100))) = FolderNotFound
   \<and> remote_files (snd (upload_handler (scn_env (scn_probe ''h264'' 3000000))
                  (scn_req ''a.mp4'' 5000000 None) (scn_world ''a.mp4'' 100))) = {}"
proof -
  have h1: "req_folder_id (scn_req ''a.mp4'' 5000000 None) = None"
    and h2: "req_file (scn_req ''a.mp4'' 5000000 None) = Some (scn_file ''a.mp4'' 5000000)"
    and h3: "user_email (req_user (scn_req ''a.mp4'' 5000000 None)) = Some ''ana@example.com''"
    by (simp_all add: scn_req_def scn_user_def)
  have h4: "toLowerCase (extname (file_originalname (scn_file ''a.mp4'' 5000000)))
              \<in> set videoExtensions"
    by (simp add: scn_file_eq string_defs videoExtensions_def)
  have h5: "select_destination (u_select_ok (scn_env (scn_probe ''h264'' 3000000))) FolderDefault
              (user_id (req_user (scn_req ''a.mp4'' 5000000 None))) (scn_world ''a.mp4'' 100) = Inr []"
    by (simp add: select_destination_def scn_env_def scn_req_def scn_user_def scn_world_def)
  from missing_folder_id_defaults[OF h1 h2 h3 h4 h5] show ?thesis
    by (simp add: scn_world_def)
qed

end
